theory Spec2Isabelle
  imports Main "HOL-Library.Word"
begin

section \<open>ShortcutFiller: the shortcut manager component\<close>

text \<open>
  A shallow embedding of \<^verbatim>\<open>src/app/components/shortcut-manager.tsx\<close>. The component
  keeps its data in React state cells; each event handler is modelled as a function from
  the state record to the updated state record. Browser services the handlers call
  (local storage, JSON parsing, the confirmation dialog, the textarea's selection) are
  inputs of the handlers.
\<close>

subsection \<open>JavaScript strings\<close>

text \<open>
  A JavaScript string is a sequence of UTF-16 code units; \<^verbatim>\<open>length\<close>,
  \<^verbatim>\<open>substring\<close>, \<^verbatim>\<open>startsWith\<close> and \<^verbatim>\<open>===\<close> all work on code units.
\<close>

type_synonym code_unit = "16 word"
type_synonym jsstring = "code_unit list"

text \<open>An ASCII string literal of the source, as code units.\<close>

definition lit :: "string \<Rightarrow> jsstring" where
  "lit s = map of_char s"

text \<open>
  \<^verbatim>\<open>String.prototype.trim\<close> removes leading and trailing white space and line
  terminators (ECMAScript: TAB, LF, VT, FF, CR, SP, NBSP, U+1680, U+2000..U+200A,
  U+2028, U+2029, U+202F, U+205F, U+3000, U+FEFF).
\<close>

definition isWhiteSpace :: "code_unit \<Rightarrow> bool" where
  "isWhiteSpace c =
     (c = 0x0009 \<or> c = 0x000A \<or> c = 0x000B \<or> c = 0x000C \<or> c = 0x000D \<or>
      c = 0x0020 \<or> c = 0x00A0 \<or> c = 0x1680 \<or> (0x2000 \<le> c \<and> c \<le> 0x200A) \<or>
      c = 0x2028 \<or> c = 0x2029 \<or> c = 0x202F \<or> c = 0x205F \<or> c = 0x3000 \<or>
      c = 0xFEFF)"

definition trim :: "jsstring \<Rightarrow> jsstring" where
  "trim s = rev (dropWhile isWhiteSpace (rev (dropWhile isWhiteSpace s)))"

text \<open>
  \<^verbatim>\<open>s.substring(start, end)\<close>: both arguments are clamped to \<open>[0, length s]\<close> and
  swapped when the first exceeds the second. The arguments are integers because the
  source passes \<^verbatim>\<open>selectedText.length - 2\<close>.
\<close>

definition substring :: "jsstring \<Rightarrow> int \<Rightarrow> int \<Rightarrow> jsstring" where
  "substring s start end' =
     (let len = int (length s);
          finalStart = min (max start 0) len;
          finalEnd = min (max end' 0) len;
          from = min finalStart finalEnd;
          to = max finalStart finalEnd
      in take (nat (to - from)) (drop (nat from) s))"

text \<open>\<^verbatim>\<open>s.substring(start)\<close>: the end defaults to the length.\<close>

definition substring_from :: "jsstring \<Rightarrow> int \<Rightarrow> jsstring" where
  "substring_from s start = substring s start (int (length s))"

definition startsWith :: "jsstring \<Rightarrow> jsstring \<Rightarrow> bool" where
  "startsWith s searchString =
     (length searchString \<le> length s \<and> take (length searchString) s = searchString)"

definition endsWith :: "jsstring \<Rightarrow> jsstring \<Rightarrow> bool" where
  "endsWith s searchString =
     (length searchString \<le> length s \<and>
      drop (length s - length searchString) s = searchString)"

text \<open>
  \<^verbatim>\<open>Array.prototype.findIndex\<close>: the index of the first element that satisfies the
  predicate, \<open>-1\<close> when there is none. (\<^verbatim>\<open>Array.prototype.find\<close> is \<^const>\<open>List.find\<close>,
  with \<^verbatim>\<open>undefined\<close> as \<^const>\<open>None\<close>.)
\<close>

fun findIndex :: "('a \<Rightarrow> bool) \<Rightarrow> 'a list \<Rightarrow> int" where
  "findIndex P [] = -1"
| "findIndex P (x # xs) =
     (if P x then 0 else (let r = findIndex P xs in if r = -1 then -1 else r + 1))"

subsection \<open>The component state\<close>

record shortcut =
  name :: jsstring
  content :: jsstring

datatype message_type = Success | Error

record message =
  msg_type :: message_type
  msg_text :: jsstring

record state =
  shortcutName :: jsstring
  shortcutContent :: jsstring
  shortcuts :: "shortcut list"
  testInput :: jsstring
  testOutput :: jsstring
  message :: "message option"

text \<open>The initial values of the \<^verbatim>\<open>useState\<close> cells (lines 20 to 28).\<close>

definition initial_state :: state where
  "initial_state =
     \<lparr>shortcutName = [], shortcutContent = [], shortcuts = [], testInput = [],
      testOutput = [], message = None\<rparr>"

subsection \<open>Loading from local storage (lines 41 to 51)\<close>

text \<open>
  \<^verbatim>\<open>localStorage.getItem\<close> returns a string or \<^verbatim>\<open>null\<close>, or throws (a
  \<^verbatim>\<open>SecurityError\<close> when storage is blocked); \<^verbatim>\<open>JSON.parse\<close> returns a value or
  throws a \<^verbatim>\<open>SyntaxError\<close>. Both are services of the browser: the outcome of the
  read is an input, and the parser is a parameter whose result is taken at the type the
  source gives it (\<^verbatim>\<open>Shortcut[]\<close>). \<open>load_try\<close> is the body of the \<^verbatim>\<open>try\<close>
  block, \<open>load\<close> the whole effect with its \<^verbatim>\<open>catch\<close>.
\<close>

datatype js_exception = SyntaxError | SecurityError

definition load_try ::
  "(jsstring \<Rightarrow> js_exception + shortcut list) \<Rightarrow> js_exception + jsstring option \<Rightarrow>
   state \<Rightarrow> js_exception + state" where
  "load_try parse got s =
     (case got of
        Inl e \<Rightarrow> Inl e
      | Inr None \<Rightarrow> Inr s
      | Inr (Some savedShortcuts) \<Rightarrow>
          (if savedShortcuts \<noteq> [] then
             (case parse savedShortcuts of
                Inl e \<Rightarrow> Inl e
              | Inr parsed \<Rightarrow> Inr (s\<lparr>shortcuts := parsed\<rparr>))
           else Inr s))"

definition load ::
  "(jsstring \<Rightarrow> js_exception + shortcut list) \<Rightarrow> js_exception + jsstring option \<Rightarrow>
   state \<Rightarrow> state" where
  "load parse got s =
     (case load_try parse got s of
        Inl e \<Rightarrow>
          s\<lparr>message :=
              Some \<lparr>msg_type = Error, msg_text = lit ''Failed to load saved shortcuts.''\<rparr>\<rparr>
      | Inr s' \<Rightarrow> s')"

subsection \<open>Saving a shortcut (lines 63 to 105)\<close>

text \<open>
  \<^verbatim>\<open>!str\<close> holds exactly for the empty string. The update branch writes to a copy of
  the \<^verbatim>\<open>shortcuts\<close> the handler closed over, the append branch to the previous value
  of the state cell; the handler is rebuilt whenever \<^verbatim>\<open>shortcuts\<close> changes, so both are
  the current collection. The message is cleared by a timer two seconds later; timers are
  not part of the model.
\<close>

definition apostrophe :: code_unit where
  "apostrophe = 0x27"

definition handleSaveShortcut :: "state \<Rightarrow> state" where
  "handleSaveShortcut s =
     (if trim (shortcutName s) = [] \<or> trim (shortcutContent s) = [] then
        s\<lparr>message :=
            Some \<lparr>msg_type = Error,
                  msg_text = lit ''Both shortcut name and content are required.''\<rparr>\<rparr>
      else
        let existingShortcutIndex =
              findIndex (\<lambda>e. name e = trim (shortcutName s)) (shortcuts s);
            s' =
              (if existingShortcutIndex \<noteq> -1 then
                 s\<lparr>shortcuts :=
                     (shortcuts s)[nat existingShortcutIndex :=
                        \<lparr>name = trim (shortcutName s), content = shortcutContent s\<rparr>],
                   message :=
                     Some \<lparr>msg_type = Success,
                           msg_text =
                             lit ''Shortcut '' @ [apostrophe] @ trim (shortcutName s) @
                             [apostrophe] @ lit '' updated!''\<rparr>\<rparr>
               else
                 s\<lparr>shortcuts :=
                     shortcuts s @
                     [\<lparr>name = trim (shortcutName s), content = shortcutContent s\<rparr>],
                   message :=
                     Some \<lparr>msg_type = Success,
                           msg_text =
                             lit ''Shortcut '' @ [apostrophe] @ trim (shortcutName s) @
                             [apostrophe] @ lit '' saved correctly!''\<rparr>\<rparr>)
        in s'\<lparr>shortcutName := [], shortcutContent := []\<rparr>)"

text \<open>The user typing into the two form fields (the \<^verbatim>\<open>onChange\<close> setters).\<close>

definition enter :: "jsstring \<Rightarrow> jsstring \<Rightarrow> state \<Rightarrow> state" where
  "enter n c s = s\<lparr>shortcutName := n, shortcutContent := c\<rparr>"

subsection \<open>Looking a shortcut up (lines 107 to 120)\<close>

definition not_found_text :: jsstring where
  "not_found_text = lit ''Shortcut does not exist yet''"

text \<open>
  Line 112: the search itself. Its result is the first entry whose name is the trimmed
  input, or \<^verbatim>\<open>undefined\<close> (here \<^const>\<open>None\<close>) when there is none.
\<close>

definition foundShortcut :: "shortcut list \<Rightarrow> jsstring \<Rightarrow> shortcut option" where
  "foundShortcut cs input = List.find (\<lambda>e. name e = trim input) cs"

text \<open>
  The handler shows the result in the output field: the content of the entry found, or
  the message text.
\<close>

definition handleTestInputChange :: "jsstring \<Rightarrow> state \<Rightarrow> state" where
  "handleTestInputChange input s =
     (case foundShortcut (shortcuts s) input of
        Some f \<Rightarrow> s\<lparr>testInput := input, testOutput := content f\<rparr>
      | None \<Rightarrow> s\<lparr>testInput := input, testOutput := not_found_text\<rparr>)"

subsection \<open>Clearing all shortcuts (lines 124 to 131)\<close>

text \<open>
  \<open>confirmed\<close> is what the \<^verbatim>\<open>confirm(...)\<close> dialog returned. \<open>clearAll\<close> is the
  body of the conditional.
\<close>

definition clearAll :: "state \<Rightarrow> state" where
  "clearAll s =
     s\<lparr>shortcuts := [], testOutput := [],
       message := Some \<lparr>msg_type = Success, msg_text = lit ''All shortcuts cleared.''\<rparr>\<rparr>"

definition handleClearAllShortcuts :: "bool \<Rightarrow> state \<Rightarrow> state" where
  "handleClearAllShortcuts confirmed s = (if confirmed then clearAll s else s)"

subsection \<open>The bold toggle (lines 134 to 183)\<close>

text \<open>
  \<open>bold_toggle\<close> is lines 144 to 166: from the content and the textarea's selection it
  computes \<^verbatim>\<open>newContent\<close> and \<^verbatim>\<open>newCursorPos\<close>. The cursor position is an
  integer: the source computes \<^verbatim>\<open>start + selectedText.length - 4\<close> in JavaScript
  numbers, which can be negative.
\<close>

definition bold_toggle :: "jsstring \<Rightarrow> nat \<Rightarrow> nat \<Rightarrow> jsstring \<times> int" where
  "bold_toggle shortcutContent' start end' =
     (let selectedText = substring shortcutContent' (int start) (int end') in
      if startsWith selectedText (lit ''**'') \<and> endsWith selectedText (lit ''**'') then
        (substring shortcutContent' 0 (int start) @
         substring selectedText 2 (int (length selectedText) - 2) @
         substring_from shortcutContent' (int end'),
         int start + int (length selectedText) - 4)
      else
        (substring shortcutContent' 0 (int start) @
         lit ''**'' @ selectedText @ lit ''**'' @
         substring_from shortcutContent' (int end'),
         int start + int (length selectedText) + 2))"




subsection \<open>The collection invariant\<close>



section \<open>Properties\<close>

subsection \<open>String and array primitives\<close>

lemma substring_range:
  "a \<le> b \<Longrightarrow> b \<le> length s \<Longrightarrow> substring s (int a) (int b) = take (b - a) (drop a s)"
  by (simp add: substring_def Let_def min_def max_def nat_diff_distrib')

lemma substring_prefix:
  "a \<le> length s \<Longrightarrow> substring s 0 (int a) = take a s"
  by (simp add: substring_def Let_def min_def max_def)

lemma substring_from_drop:
  "b \<le> length s \<Longrightarrow> substring_from s (int b) = drop b s"
  by (simp add: substring_from_def substring_def Let_def min_def max_def)

lemma substring_inner:
  "4 \<le> length s \<Longrightarrow> substring s 2 (int (length s) - 2) = take (length s - 4) (drop 2 s)"
  by (auto simp add: substring_def Let_def min_def max_def nat_diff_distrib')

lemma trim_Nil: "trim [] = []"
  by (simp add: trim_def)

lemma dropWhile_rev_prefix:
  "xs = [] \<or> \<not> P (hd xs) \<Longrightarrow> dropWhile P (rev (dropWhile P (rev xs))) = rev (dropWhile P (rev xs))"
proof (cases "rev (dropWhile P (rev xs))")
  case Nil then show ?thesis by (simp only: dropWhile.simps)
next
  case (Cons y ys)
  assume h: "xs = [] \<or> \<not> P (hd xs)"
  have "\<exists>zs. xs = rev (dropWhile P (rev xs)) @ zs"
    by (metis rev_append rev_rev_ident takeWhile_dropWhile_id)
  then obtain zs where "xs = (y # ys) @ zs" using Cons by metis
  then have "hd xs = y" "xs \<noteq> []" by (cases xs; simp)+
  with h have "\<not> P y" by simp
  then show ?thesis using Cons by simp
qed

lemma trim_idem: "trim (trim s) = trim s"
proof -
  let ?t = "dropWhile isWhiteSpace s"
  have "?t = [] \<or> \<not> isWhiteSpace (hd ?t)"
    by (metis hd_dropWhile)
  then have "dropWhile isWhiteSpace (rev (dropWhile isWhiteSpace (rev ?t))) = rev (dropWhile isWhiteSpace (rev ?t))"
    by (rule dropWhile_rev_prefix)
  then show ?thesis by (simp add: trim_def dropWhile_idem)
qed

lemma findIndex_lower: "-1 \<le> findIndex P xs"
  by (induction xs) (auto simp: Let_def)

lemma findIndex_none: "findIndex P xs = -1 \<longleftrightarrow> (\<forall>x\<in>set xs. \<not> P x)"
proof (induction xs)
  case Nil then show ?case by simp
next
  case (Cons x xs)
  have "findIndex P xs + 1 \<noteq> -1" using findIndex_lower [of P xs] by arith
  with Cons show ?case by (auto simp: Let_def)
qed

lemma findIndex_ge: "findIndex P xs \<noteq> -1 \<Longrightarrow> 0 \<le> findIndex P xs"
  by (induction xs) (auto simp: Let_def split: if_splits)

lemma findIndex_first:
  "findIndex P xs \<noteq> -1 \<Longrightarrow>
     nat (findIndex P xs) < length xs \<and> P (xs ! nat (findIndex P xs)) \<and>
     (\<forall>j < nat (findIndex P xs). \<not> P (xs ! j))"
proof (induction xs)
  case Nil then show ?case by simp
next
  case (Cons x xs)
  show ?case
  proof (cases "P x")
    case True then show ?thesis by simp
  next
    case False
    with Cons.prems have ne: "findIndex P xs \<noteq> -1" by (auto simp: Let_def split: if_splits)
    then have ge: "0 \<le> findIndex P xs" by (rule findIndex_ge)
    from False ne have eq: "findIndex P (x # xs) = findIndex P xs + 1" by (simp add: Let_def)
    have n: "nat (findIndex P xs + 1) = Suc (nat (findIndex P xs))" using ge by simp
    from Cons.IH[OF ne] False show ?thesis
      unfolding eq n by (auto simp: less_Suc_eq_0_disj)
  qed
qed

lemma find_first_index:
  "i < length xs \<Longrightarrow> P (xs ! i) \<Longrightarrow> (\<forall>j<i. \<not> P (xs ! j)) \<Longrightarrow> List.find P xs = Some (xs ! i)"
proof (induction xs arbitrary: i)
  case Nil then show ?case by simp
next
  case (Cons x xs)
  show ?case
  proof (cases i)
    case 0 with Cons.prems show ?thesis by simp
  next
    case (Suc k)
    with Cons.prems have "\<not> P x" by auto
    moreover have "List.find P xs = Some (xs ! k)"
      using Cons.prems Suc by (intro Cons.IH) auto
    ultimately show ?thesis using Suc by simp
  qed
qed

lemma find_append_new:
  "(\<forall>x\<in>set xs. \<not> P x) \<Longrightarrow> P y \<Longrightarrow> List.find P (xs @ [y]) = Some y"
  by (induction xs) auto

subsection \<open>The bold toggle on a valid selection\<close>

lemma lit_stars: "lit ''**'' = [42, 42]"
  by (simp add: lit_def)

lemma bold_toggle_valid:
  assumes "start \<le> end'" "end' \<le> length text"
  shows "bold_toggle text start end' =
     (let sel = take (end' - start) (drop start text) in
      if startsWith sel (lit ''**'') \<and> endsWith sel (lit ''**'') then
        (take start text @ substring sel 2 (int (length sel) - 2) @ drop end' text,
         int start + int (length sel) - 4)
      else
        (take start text @ lit ''**'' @ sel @ lit ''**'' @ drop end' text,
         int start + int (length sel) + 2))"
proof -
  have a: "substring text (int start) (int end') = take (end' - start) (drop start text)"
    using assms by (rule substring_range)
  have b: "substring text 0 (int start) = take start text"
    using assms by (intro substring_prefix) simp
  have c: "substring_from text (int end') = drop end' text"
    using assms by (intro substring_from_drop)
  show ?thesis unfolding bold_toggle_def a b c ..
qed

lemma bold_toggle_wrap:
  assumes "start \<le> end'" "end' \<le> length text"
    and "\<not> (startsWith (take (end' - start) (drop start text)) (lit ''**'') \<and>
            endsWith (take (end' - start) (drop start text)) (lit ''**''))"
  shows "bold_toggle text start end' =
     (take start text @ lit ''**'' @ take (end' - start) (drop start text) @ lit ''**'' @
        drop end' text,
      int start + int (end' - start) + 2)"
  using assms by (simp add: bold_toggle_valid Let_def)

lemma bold_toggle_unwrap:
  assumes "start \<le> end'" "end' \<le> length text"
    and "startsWith (take (end' - start) (drop start text)) (lit ''**'')"
    and "endsWith (take (end' - start) (drop start text)) (lit ''**'')"
    and "4 \<le> end' - start"
  shows "bold_toggle text start end' =
     (take start text @ take (end' - start - 4) (drop (start + 2) text) @ drop end' text,
      int start + int (end' - start) - 4)"
proof -
  let ?sel = "take (end' - start) (drop start text)"
  have len: "length ?sel = end' - start" using assms by simp
  have "substring ?sel 2 (int (length ?sel) - 2) = take (length ?sel - 4) (drop 2 ?sel)"
    using assms len by (intro substring_inner) simp
  also have "\<dots> = take (end' - start - 4) (drop (start + 2) text)"
    unfolding len by (simp add: drop_take add.commute)
  finally show ?thesis using assms len by (simp add: bold_toggle_valid Let_def)
qed

lemma wrapped_is_bold:
  "startsWith (lit ''**'' @ sel @ lit ''**'') (lit ''**'') \<and>
   endsWith (lit ''**'' @ sel @ lit ''**'') (lit ''**'')"
  by (simp add: startsWith_def endsWith_def lit_stars)

lemma take_drop_middle:
  "length p = a \<Longrightarrow> length m = n \<Longrightarrow> take n (drop a (p @ m @ r)) = m"
  by simp

lemma drop_past_middle:
  "length p + length m = k \<Longrightarrow> drop k (p @ m @ r) = r"
  by simp

lemma bold_toggle_roundtrip:
  assumes "start \<le> end'" "end' \<le> length text"
    and "\<not> (startsWith (take (end' - start) (drop start text)) (lit ''**'') \<and>
            endsWith (take (end' - start) (drop start text)) (lit ''**''))"
  shows "fst (bold_toggle (fst (bold_toggle text start end')) start (end' + 4)) = text"
proof -
  let ?sel = "take (end' - start) (drop start text)"
  let ?m = "lit ''**'' @ ?sel @ lit ''**''"
  let ?t1 = "take start text @ ?m @ drop end' text"
  have t1: "fst (bold_toggle text start end') = ?t1"
    using assms by (simp add: bold_toggle_wrap)
  have lsel: "length ?sel = end' - start" using assms by simp
  have lp: "length (take start text) = start" using assms by simp
  have lm: "length ?m = end' + 4 - start" using assms lsel by (simp add: lit_stars)
  have sel1: "take (end' + 4 - start) (drop start ?t1) = ?m"
    using lp lm by (rule take_drop_middle)
  have r: "drop (end' + 4) ?t1 = drop end' text"
  proof (rule drop_past_middle)
    show "length (take start text) + length ?m = end' + 4" using lp lm assms by simp
  qed
  have p: "take start ?t1 = take start text" using lp by simp
  have "drop (start + 2) ?t1 = ?sel @ lit ''**'' @ drop end' text"
    using lp by (simp add: lit_stars)
  then have inner: "take (end' + 4 - start - 4) (drop (start + 2) ?t1) = ?sel"
    using lsel by simp
  have "bold_toggle ?t1 start (end' + 4) =
     (take start ?t1 @ take (end' + 4 - start - 4) (drop (start + 2) ?t1) @ drop (end' + 4) ?t1,
      int start + int (end' + 4 - start) - 4)"
  proof (rule bold_toggle_unwrap)
    show "start \<le> end' + 4" using assms by simp
    show "end' + 4 \<le> length ?t1" using assms by (simp add: lit_stars)
    show "startsWith (take (end' + 4 - start) (drop start ?t1)) (lit ''**'')"
      unfolding sel1 using wrapped_is_bold by blast
    show "endsWith (take (end' + 4 - start) (drop start ?t1)) (lit ''**'')"
      unfolding sel1 using wrapped_is_bold by blast
    show "4 \<le> end' + 4 - start" using assms by simp
  qed
  then have "fst (bold_toggle ?t1 start (end' + 4)) = take start text @ ?sel @ drop end' text"
    unfolding p inner r by simp
  also have "\<dots> = text"
  proof -
    have "?sel @ drop end' text = drop start text"
      using assms by (metis append_take_drop_id drop_drop le_add_diff_inverse2)
    then show ?thesis by simp
  qed
  finally show ?thesis unfolding t1 .
qed

lemma bold_toggle_middle:
  assumes "start \<le> end'" "end' \<le> length text"
  shows "\<exists>mid. fst (bold_toggle text start end') = take start text @ mid @ drop end' text"
  using assms by (auto simp add: bold_toggle_valid Let_def)

subsection \<open>Saving and looking up\<close>

lemma save_invalid:
  assumes "trim (shortcutName s) = [] \<or> trim (shortcutContent s) = []"
  shows "handleSaveShortcut s =
     s\<lparr>message := Some \<lparr>msg_type = Error,
          msg_text = lit ''Both shortcut name and content are required.''\<rparr>\<rparr>"
  using assms by (simp add: handleSaveShortcut_def)

lemma save_update:
  assumes "trim (shortcutName s) \<noteq> []" "trim (shortcutContent s) \<noteq> []"
    and "findIndex (\<lambda>e. name e = trim (shortcutName s)) (shortcuts s) \<noteq> -1"
  shows "shortcuts (handleSaveShortcut s) =
     (shortcuts s)[nat (findIndex (\<lambda>e. name e = trim (shortcutName s)) (shortcuts s)) :=
        \<lparr>name = trim (shortcutName s), content = shortcutContent s\<rparr>]"
  using assms by (simp add: handleSaveShortcut_def Let_def)

lemma save_append:
  assumes "trim (shortcutName s) \<noteq> []" "trim (shortcutContent s) \<noteq> []"
    and "findIndex (\<lambda>e. name e = trim (shortcutName s)) (shortcuts s) = -1"
  shows "shortcuts (handleSaveShortcut s) =
     shortcuts s @ [\<lparr>name = trim (shortcutName s), content = shortcutContent s\<rparr>]"
  using assms by (simp add: handleSaveShortcut_def Let_def)


lemma find_after_save:
  assumes "trim (shortcutName s) \<noteq> []" "trim (shortcutContent s) \<noteq> []"
  shows "List.find (\<lambda>e. name e = trim (shortcutName s)) (shortcuts (handleSaveShortcut s)) =
     Some \<lparr>name = trim (shortcutName s), content = shortcutContent s\<rparr>"
proof (cases "findIndex (\<lambda>e. name e = trim (shortcutName s)) (shortcuts s) = -1")
  case True
  then have "\<forall>x\<in>set (shortcuts s). \<not> name x = trim (shortcutName s)"
    by (simp add: findIndex_none)
  then show ?thesis
    unfolding save_append [OF assms True] by (intro find_append_new) simp_all
next
  case False
  let ?P = "\<lambda>e. name e = trim (shortcutName s)"
  let ?i = "nat (findIndex ?P (shortcuts s))"
  let ?e = "\<lparr>name = trim (shortcutName s), content = shortcutContent s\<rparr>"
  from findIndex_first [OF False]
  have i: "?i < length (shortcuts s)" and first: "\<forall>j<?i. \<not> ?P (shortcuts s ! j)"
    by blast+
  have "List.find ?P ((shortcuts s)[?i := ?e]) = Some (((shortcuts s)[?i := ?e]) ! ?i)"
  proof (rule find_first_index)
    show "?i < length ((shortcuts s)[?i := ?e])" using i by simp
    show "?P (((shortcuts s)[?i := ?e]) ! ?i)" using i by simp
    show "\<forall>j<?i. \<not> ?P (((shortcuts s)[?i := ?e]) ! j)" using first by simp
  qed
  then show ?thesis unfolding save_update [OF assms False] using i by simp
qed

lemma lookup_output:
  "testOutput (handleTestInputChange input s) =
     (case foundShortcut (shortcuts s) input of
        Some f \<Rightarrow> content f | None \<Rightarrow> not_found_text)"
  by (simp add: handleTestInputChange_def split: option.splits)

lemma lookup_shortcuts: "shortcuts (handleTestInputChange input s) = shortcuts s"
  by (simp add: handleTestInputChange_def split: option.splits)

lemma found_after_save:
  assumes "trim n \<noteq> []" "trim c \<noteq> []"
  shows "foundShortcut (shortcuts (handleSaveShortcut (enter n c s))) (trim n) =
     Some \<lparr>name = trim n, content = c\<rparr>"
  using find_after_save [of "enter n c s"] assms
  by (simp add: enter_def foundShortcut_def trim_idem)

subsection \<open>The collection invariant under saving\<close>










subsection \<open>Loading and the collection\<close>



section \<open>The claims\<close>

text \<open>
  C1. The claim: a selection counts as already bold exactly when it starts with \<open>**\<close>,
  ends with \<open>**\<close> and has at least four code units; every other selection, the
  selections \<open>**\<close> and \<open>***\<close> included, is wrapped, with the caret at
  \<open>start + length selected + 2\<close>. The source tests only the two ends (line 150). On the
  selection \<open>**\<close> it takes the unwrapping branch: \<^verbatim>\<open>substring(2, 0)\<close> swaps its
  arguments and gives \<open>**\<close> back, the text is unchanged and the caret is
  \<open>start - 2\<close>; on \<open>***\<close> one star is left and the caret is \<open>start - 1\<close>. For all
  other selections the behaviour is the claimed one (\<open>bold_toggle_wrap\<close>,
  \<open>bold_toggle_unwrap\<close>).
\<close>

theorem C1_marker_only_selection_is_unwrapped:
  "bold_toggle (lit ''**'') 0 2 = (lit ''**'', -2) \<and>
   bold_toggle (lit ''**'') 0 2 \<noteq> (lit ''******'', 4) \<and>
   bold_toggle (lit ''***'') 0 3 = (lit ''*'', -1) \<and>
   bold_toggle (lit ''***'') 0 3 \<noteq> (lit ''*******'', 5)"
  by (simp add: bold_toggle_def substring_def substring_from_def startsWith_def
      endsWith_def lit_def Let_def)

text \<open>
  C2. The claim: toggling a selection that is not already bold and then toggling the span
  \<open>[start, end + 4)\<close> gives the original text back. Whenever the first toggle wraps,
  this holds (\<open>bold_toggle_roundtrip\<close>). The selection \<open>**\<close> of the text
  \<open>**abcd\<close> is not already bold in the claim's sense (fewer than four code units),
  but the source does not wrap it: the first toggle leaves the text as it is, and the
  second, on \<open>[0, 6)\<close>, wraps all of it.
\<close>

theorem C2_roundtrip_on_marker_only_selection:
  "fst (bold_toggle (lit ''**abcd'') 0 2) = lit ''**abcd'' \<and>
   fst (bold_toggle (fst (bold_toggle (lit ''**abcd'') 0 2)) 0 6) = lit ''****abcd**'' \<and>
   fst (bold_toggle (fst (bold_toggle (lit ''**abcd'') 0 2)) 0 6) \<noteq> lit ''**abcd''"
  by (simp add: bold_toggle_def substring_def substring_from_def startsWith_def
      endsWith_def lit_def Let_def)

text \<open>
  C3. The claim: on \<open>hello world\<close> with selection \<open>[0, 5)\<close> the toggle gives
  \<open>**hello** world\<close> and caret 7; toggling that with selection \<open>[0, 9)\<close> gives
  \<open>hello world\<close> and caret 0. The texts and the first caret are as claimed; the second
  caret is \<open>start + length selected - 4 = 0 + 9 - 4 = 5\<close>, not 0.
\<close>

theorem C3_second_caret_is_not_zero:
  "snd (bold_toggle (lit ''**hello** world'') 0 9) \<noteq> 0"
  by (simp add: bold_toggle_def substring_def substring_from_def startsWith_def
      endsWith_def lit_def Let_def)

text \<open>
  C3, amended: on \<open>hello world\<close> with selection \<open>[0, 5)\<close> the toggle gives
  \<open>**hello** world\<close> and caret 7; toggling that text with selection \<open>[0, 9)\<close> gives
  \<open>hello world\<close> and caret 5.
\<close>

theorem C3_hello_world_example:
  "bold_toggle (lit ''hello world'') 0 5 = (lit ''**hello** world'', 7) \<and>
   bold_toggle (lit ''**hello** world'') 0 9 = (lit ''hello world'', 5)"
  by (simp add: bold_toggle_def substring_def substring_from_def startsWith_def
      endsWith_def lit_def Let_def)

text \<open>
  C4. For every collection and every name and content whose trims are not empty, saving
  the pair and then looking up the trimmed name finds an entry with exactly that content,
  and the output field shows it: the name is trimmed, the content is stored as typed.
\<close>

theorem C4_upsert_then_lookup:
  assumes "trim n \<noteq> []" "trim c \<noteq> []"
  shows "map_option content
           (foundShortcut (shortcuts (handleSaveShortcut (enter n c s))) (trim n)) = Some c \<and>
         testOutput (handleTestInputChange (trim n) (handleSaveShortcut (enter n c s))) = c"
  using found_after_save [OF assms, of s] by (simp add: lookup_output)

theorem C4_upsert_then_lookup_witness:
  "trim (lit '' greet '') \<noteq> [] \<and> trim (lit '' Hi! '') \<noteq> [] \<and>
   trim (lit '' greet '') = lit ''greet'' \<and>
   testOutput (handleTestInputChange (lit ''greet'')
     (handleSaveShortcut (enter (lit '' greet '') (lit '' Hi! '') initial_state))) = lit '' Hi! ''"
proof -
  have a: "trim (lit '' greet '') \<noteq> []" by (simp add: trim_def lit_def isWhiteSpace_def)
  have b: "trim (lit '' Hi! '') \<noteq> []" by (simp add: trim_def lit_def isWhiteSpace_def)
  have c: "trim (lit '' greet '') = lit ''greet''" by (simp add: trim_def lit_def isWhiteSpace_def)
  show ?thesis using a b c C4_upsert_then_lookup [OF a b, of initial_state] by simp
qed




text \<open>
  C6. When the trimmed name or the content is empty, saving reports the validation error
  and changes nothing else: the collection is the one before, with no entry added or
  modified.
\<close>

theorem C6_invalid_save_changes_nothing:
  assumes "trim n = [] \<or> c = []"
  shows "handleSaveShortcut (enter n c s) =
           (enter n c s)\<lparr>message := Some \<lparr>msg_type = Error,
              msg_text = lit ''Both shortcut name and content are required.''\<rparr>\<rparr> \<and>
         shortcuts (handleSaveShortcut (enter n c s)) = shortcuts s"
proof -
  have "trim (shortcutName (enter n c s)) = [] \<or> trim (shortcutContent (enter n c s)) = []"
    using assms by (auto simp: enter_def trim_Nil)
  from save_invalid [OF this] show ?thesis by (simp add: enter_def)
qed

theorem C6_invalid_save_changes_nothing_witness:
  "trim [] = [] \<and>
   shortcuts (handleSaveShortcut (enter [] (lit ''x'')
     (initial_state\<lparr>shortcuts := [\<lparr>name = lit ''a'', content = lit ''y''\<rparr>]\<rparr>))) =
     [\<lparr>name = lit ''a'', content = lit ''y''\<rparr>] \<and>
   message (handleSaveShortcut (enter [] (lit ''x'')
     (initial_state\<lparr>shortcuts := [\<lparr>name = lit ''a'', content = lit ''y''\<rparr>]\<rparr>))) =
     Some \<lparr>msg_type = Error, msg_text = lit ''Both shortcut name and content are required.''\<rparr>"
proof -
  have a: "trim [] = [] \<or> lit ''x'' = []" by (simp add: trim_Nil)
  show ?thesis
    using C6_invalid_save_changes_nothing
      [OF a, of "initial_state\<lparr>shortcuts := [\<lparr>name = lit ''a'', content = lit ''y''\<rparr>]\<rparr>"]
    by (simp add: trim_Nil enter_def)
qed

text \<open>
  C7. The claim: lookup returns the matched content, or a distinguished not-found result
  when no entry has the name. What the handler produces is the output field. For a name
  that is not stored it holds the text \<^verbatim>\<open>Shortcut does not exist yet\<close> (line 116), a
  string like any content. After saving the name \<open>x\<close> with that text as content, the
  search finds \<open>x\<close> and does not find \<open>never\<close>, and the output is the same for both.
\<close>

theorem C7_not_found_output_equals_a_found_one:
  "shortcuts (handleSaveShortcut (enter (lit ''x'') not_found_text initial_state)) =
     [\<lparr>name = lit ''x'', content = not_found_text\<rparr>] \<and>
   foundShortcut (shortcuts (handleSaveShortcut (enter (lit ''x'') not_found_text initial_state)))
     (lit ''x'') = Some \<lparr>name = lit ''x'', content = not_found_text\<rparr> \<and>
   foundShortcut (shortcuts (handleSaveShortcut (enter (lit ''x'') not_found_text initial_state)))
     (lit ''never'') = None \<and>
   testOutput (handleTestInputChange (lit ''x'')
     (handleSaveShortcut (enter (lit ''x'') not_found_text initial_state))) =
   testOutput (handleTestInputChange (lit ''never'')
     (handleSaveShortcut (enter (lit ''x'') not_found_text initial_state)))"
  by (simp add: handleSaveShortcut_def enter_def initial_state_def handleTestInputChange_def
      foundShortcut_def not_found_text_def trim_def lit_def isWhiteSpace_def Let_def)

text \<open>
  C7, amended: for every collection and every query, lookup compares the trimmed query
  with the stored names code unit by code unit (exact and case-sensitive). The search
  finds the first entry with that name, and the output is that entry's content; it finds
  nothing exactly when no entry has that name, and the output is then the fixed text
  \<^verbatim>\<open>Shortcut does not exist yet\<close>, an ordinary string and not a separate kind of
  result. Lookup is a total function, so nothing is thrown, and it leaves the collection
  as it is.
\<close>

theorem C7_lookup_exact_match_or_message_text:
  "(foundShortcut (shortcuts s) q = None \<longleftrightarrow> list_all (\<lambda>e. name e \<noteq> trim q) (shortcuts s)) \<and>
   (\<forall>i<length (shortcuts s).
      name (shortcuts s ! i) = trim q \<and> (\<forall>j<i. name (shortcuts s ! j) \<noteq> trim q) \<longrightarrow>
      foundShortcut (shortcuts s) q = Some (shortcuts s ! i) \<and>
      testOutput (handleTestInputChange q s) = content (shortcuts s ! i)) \<and>
   (\<forall>f. foundShortcut (shortcuts s) q = Some f \<longrightarrow>
      name f = trim q \<and> testOutput (handleTestInputChange q s) = content f) \<and>
   (foundShortcut (shortcuts s) q = None \<longrightarrow>
      testOutput (handleTestInputChange q s) = not_found_text) \<and>
   shortcuts (handleTestInputChange q s) = shortcuts s \<and>
   not_found_text = lit ''Shortcut does not exist yet''"
proof -
  have none: "foundShortcut (shortcuts s) q = None \<longleftrightarrow>
      list_all (\<lambda>e. name e \<noteq> trim q) (shortcuts s)"
    by (auto simp: foundShortcut_def find_None_iff list_all_iff)
  have first: "\<forall>i<length (shortcuts s).
      name (shortcuts s ! i) = trim q \<and> (\<forall>j<i. name (shortcuts s ! j) \<noteq> trim q) \<longrightarrow>
      foundShortcut (shortcuts s) q = Some (shortcuts s ! i) \<and>
      testOutput (handleTestInputChange q s) = content (shortcuts s ! i)"
  proof (intro allI impI)
    fix i assume i: "i < length (shortcuts s)"
      and h: "name (shortcuts s ! i) = trim q \<and> (\<forall>j<i. name (shortcuts s ! j) \<noteq> trim q)"
    have "List.find (\<lambda>e. name e = trim q) (shortcuts s) = Some (shortcuts s ! i)"
      using i h by (intro find_first_index) simp_all
    then show "foundShortcut (shortcuts s) q = Some (shortcuts s ! i) \<and>
      testOutput (handleTestInputChange q s) = content (shortcuts s ! i)"
      by (simp add: lookup_output foundShortcut_def)
  qed
  have some: "\<forall>f. foundShortcut (shortcuts s) q = Some f \<longrightarrow>
      name f = trim q \<and> testOutput (handleTestInputChange q s) = content f"
  proof (intro allI impI)
    fix f assume f: "foundShortcut (shortcuts s) q = Some f"
    then have "List.find (\<lambda>e. name e = trim q) (shortcuts s) = Some f"
      by (simp add: foundShortcut_def)
    then have "name f = trim q" by (auto simp: find_Some_iff)
    moreover have "testOutput (handleTestInputChange q s) = content f"
      using f by (simp add: lookup_output)
    ultimately show "name f = trim q \<and> testOutput (handleTestInputChange q s) = content f"
      by simp
  qed
  have out: "foundShortcut (shortcuts s) q = None \<longrightarrow>
      testOutput (handleTestInputChange q s) = not_found_text"
    by (simp add: lookup_output)
  from none first some out show ?thesis
    by (simp only: lookup_shortcuts not_found_text_def simp_thms)
qed

theorem C7_lookup_exact_match_or_message_text_witness:
  "foundShortcut [\<lparr>name = lit ''greet'', content = lit ''Hi!''\<rparr>] (lit ''Greet'') = None \<and>
   testOutput (handleTestInputChange (lit ''Greet'')
     (initial_state\<lparr>shortcuts := [\<lparr>name = lit ''greet'', content = lit ''Hi!''\<rparr>]\<rparr>)) =
     lit ''Shortcut does not exist yet'' \<and>
   name \<lparr>name = lit ''greet'', content = lit ''Hi!''\<rparr> = trim (lit '' greet '') \<and>
   foundShortcut [\<lparr>name = lit ''greet'', content = lit ''Hi!''\<rparr>] (lit '' greet '') =
     Some \<lparr>name = lit ''greet'', content = lit ''Hi!''\<rparr> \<and>
   testOutput (handleTestInputChange (lit '' greet '')
     (initial_state\<lparr>shortcuts := [\<lparr>name = lit ''greet'', content = lit ''Hi!''\<rparr>]\<rparr>)) =
     lit ''Hi!''"
proof -
  let ?cs = "[\<lparr>name = lit ''greet'', content = lit ''Hi!''\<rparr>]"
  let ?s = "initial_state\<lparr>shortcuts := ?cs\<rparr>"
  have sh: "shortcuts ?s = ?cs" by simp
  have a: "list_all (\<lambda>e. name e \<noteq> trim (lit ''Greet'')) ?cs"
    by (simp add: trim_def lit_def isWhiteSpace_def)
  have b: "name \<lparr>name = lit ''greet'', content = lit ''Hi!''\<rparr> = trim (lit '' greet '')"
    by (simp add: trim_def lit_def isWhiteSpace_def)
  from C7_lookup_exact_match_or_message_text [of ?s "lit ''Greet''", unfolded sh] a
  have n: "foundShortcut ?cs (lit ''Greet'') = None"
    and "testOutput (handleTestInputChange (lit ''Greet'') ?s) = not_found_text"
    by blast+
  then have c: "testOutput (handleTestInputChange (lit ''Greet'') ?s) =
      lit ''Shortcut does not exist yet''"
    by (simp add: not_found_text_def)
  have i: "(0::nat) < length ?cs" "name (?cs ! 0) = trim (lit '' greet '')"
    "\<forall>j<(0::nat). name (?cs ! j) \<noteq> trim (lit '' greet '')"
    using b by simp_all
  from C7_lookup_exact_match_or_message_text [of ?s "lit '' greet ''", unfolded sh] i
  have "foundShortcut ?cs (lit '' greet '') = Some (?cs ! 0) \<and>
      testOutput (handleTestInputChange (lit '' greet '') ?s) = content (?cs ! 0)"
    by blast
  then have d: "foundShortcut ?cs (lit '' greet '') =
        Some \<lparr>name = lit ''greet'', content = lit ''Hi!''\<rparr>"
    "testOutput (handleTestInputChange (lit '' greet '') ?s) = lit ''Hi!''"
    by simp_all
  from n b c d show ?thesis by (simp only: simp_thms)
qed

text \<open>
  C8. Clearing gives the empty collection whatever the collection was, and every lookup
  after it, so also the lookup of each name that was stored, finds nothing and shows the
  message text. \<open>clearAll\<close> is what the handler does once the dialog is confirmed.
\<close>

theorem C8_clear_all_then_lookup:
  "shortcuts (clearAll s) = [] \<and> handleClearAllShortcuts True s = clearAll s \<and>
   (\<forall>q. foundShortcut (shortcuts (clearAll s)) q = None \<and>
        testOutput (handleTestInputChange q (clearAll s)) = not_found_text)"
  by (simp add: clearAll_def handleClearAllShortcuts_def lookup_output foundShortcut_def)

text \<open>
  C9. The claim: when the stored string cannot be parsed, loading gives the empty
  collection with a warning. The source parses only a non-empty string (line 44). The
  empty string is not valid JSON, \<^verbatim>\<open>JSON.parse("")\<close> throws a \<^verbatim>\<open>SyntaxError\<close>, but
  it is never parsed: the collection stays empty and no warning is set.
\<close>

theorem C9_empty_stored_string_gives_no_warning:
  "load (\<lambda>raw. Inl SyntaxError) (Inr (Some [])) initial_state = initial_state \<and>
   message (load (\<lambda>raw. Inl SyntaxError) (Inr (Some [])) initial_state) = None"
  by (simp add: load_def load_try_def initial_state_def)

text \<open>
  C9, amended: loading leaves the state as it is when the key is absent; when the stored
  string is not empty and parsing it throws, it leaves the collection as it is and sets
  the warning message; an empty stored string is treated like an absent key, with no
  warning. At mount the collection is empty, so in all three cases the collection after
  loading is empty. \<open>load\<close> returns a state in every case: the \<^verbatim>\<open>catch\<close> block
  handles every exception of the \<^verbatim>\<open>try\<close> block, also one thrown by the read
  itself.
\<close>

theorem C9_load_absent_or_unparseable:
  "load parse (Inr None) s = s \<and>
   shortcuts (load parse (Inr None) initial_state) = [] \<and>
   (savedShortcuts \<noteq> [] \<and> parse savedShortcuts = Inl e \<longrightarrow>
      load parse (Inr (Some savedShortcuts)) s =
        s\<lparr>message := Some \<lparr>msg_type = Error,
             msg_text = lit ''Failed to load saved shortcuts.''\<rparr>\<rparr> \<and>
      shortcuts (load parse (Inr (Some savedShortcuts)) initial_state) = []) \<and>
   load parse (Inr (Some [])) s = s \<and>
   shortcuts (load parse (Inr (Some [])) initial_state) = [] \<and>
   load parse (Inl e) s =
     s\<lparr>message := Some \<lparr>msg_type = Error,
          msg_text = lit ''Failed to load saved shortcuts.''\<rparr>\<rparr>"
  by (simp add: load_def load_try_def initial_state_def)

theorem C9_load_absent_or_unparseable_witness:
  "lit ''{oops'' \<noteq> [] \<and>
   shortcuts (load (\<lambda>raw. Inl SyntaxError) (Inr (Some (lit ''{oops''))) initial_state) = [] \<and>
   message (load (\<lambda>raw. Inl SyntaxError) (Inr (Some (lit ''{oops''))) initial_state) =
     Some \<lparr>msg_type = Error, msg_text = lit ''Failed to load saved shortcuts.''\<rparr>"
proof -
  have a: "lit ''{oops'' \<noteq> []" by (simp add: lit_def)
  have b: "(\<lambda>raw::jsstring. (Inl SyntaxError :: js_exception + shortcut list)) (lit ''{oops'') =
      Inl SyntaxError" by simp
  from C9_load_absent_or_unparseable
         [of "\<lambda>raw. Inl SyntaxError" initial_state "lit ''{oops''" SyntaxError] a b
  have "load (\<lambda>raw. Inl SyntaxError) (Inr (Some (lit ''{oops''))) initial_state =
        initial_state\<lparr>message := Some \<lparr>msg_type = Error,
             msg_text = lit ''Failed to load saved shortcuts.''\<rparr>\<rparr>"
    by blast
  then show ?thesis using a by (simp add: initial_state_def)
qed

text \<open>
  C10. For every text and every selection with \<open>start \<le> end \<le> length text\<close>, the new
  text begins with the \<open>start\<close> code units before the selection and ends with the code
  units after it, and the two do not overlap: only the selected region is rewritten. This
  holds in both branches of the toggle.
\<close>

theorem C10_bold_toggle_frame:
  assumes "start \<le> end'" "end' \<le> length text"
  shows "take start (fst (bold_toggle text start end')) = take start text \<and>
         drop (length (fst (bold_toggle text start end')) - (length text - end'))
           (fst (bold_toggle text start end')) = drop end' text \<and>
         start + (length text - end') \<le> length (fst (bold_toggle text start end'))"
proof -
  obtain mid where eq: "fst (bold_toggle text start end') = take start text @ mid @ drop end' text"
    using bold_toggle_middle [OF assms] by blast
  have lp: "length (take start text) = start" using assms by simp
  show ?thesis unfolding eq using lp by simp
qed

theorem C10_bold_toggle_frame_witness:
  "(6::nat) \<le> 9 \<and> 9 \<le> length (lit ''hello world'') \<and>
   take 6 (fst (bold_toggle (lit ''hello world'') 6 9)) = lit ''hello '' \<and>
   drop (length (fst (bold_toggle (lit ''hello world'') 6 9)) - 2)
     (fst (bold_toggle (lit ''hello world'') 6 9)) = lit ''ld''"
proof -
  have a: "(6::nat) \<le> 9" by simp
  have b: "9 \<le> length (lit ''hello world'')" by (simp add: lit_def)
  have c: "take 6 (lit ''hello world'') = lit ''hello ''"
    "drop 9 (lit ''hello world'') = lit ''ld''"
    "length (lit ''hello world'') - 9 = 2"
    by (simp_all add: lit_def)
  from C10_bold_toggle_frame [OF a b] show ?thesis
    unfolding c using a b by simp
qed

end
